theory Spec2Isabelle
  imports Complex_Main
begin

section \<open>Python exceptions as values\<close>

text \<open>
  Every exception that the modelled parts of \<^verbatim>\<open>helenservice/api_client.py\<close> can raise
  is a constructor of \<open>py_error\<close>; a function that can raise returns \<open>py_error + 'a\<close>
  with \<open>Inl\<close> for the exception.
\<close>

datatype py_error =
    ZeroDivisionError
  | IndexError
  | KeyError
  | TypeError
  | ValueError
  | OverflowError
  | StopIteration

text \<open>Running one step after another: the first exception ends the run.\<close>

definition py_then :: "py_error + 'a \<Rightarrow> ('a \<Rightarrow> py_error + 'b) \<Rightarrow> py_error + 'b" where
  "py_then r f = (case r of Inl e \<Rightarrow> Inl e | Inr v \<Rightarrow> f v)"

section \<open>Python numbers\<close>

text \<open>
  A number that \<^verbatim>\<open>json.loads\<close> yields is an \<^verbatim>\<open>int\<close>, of any size, or a \<^verbatim>\<open>float\<close>, an
  IEEE 754 double: a finite double is given by its rational value, beside the two
  infinities and NaN. The two zeros of the doubles are not told apart: they are equal in
  Python, and no operation used here depends on the sign of a zero.
\<close>

datatype py_float = Finite rat | PosInf | NegInf | NaN

datatype py_num = PyInt int | PyFloat py_float

text \<open>\<^verbatim>\<open>int.bit_length\<close> of an int that is not negative.\<close>

function bit_length :: "int \<Rightarrow> int" where
  "bit_length n = (if n \<le> 0 then 0 else 1 + bit_length (n div 2))"
  by pat_completeness auto
termination
  by (relation "measure nat") auto

declare bit_length.simps [simp del]

definition pow2 :: "int \<Rightarrow> rat" where
  "pow2 e = (if 0 \<le> e then 2 ^ nat e else 1 / 2 ^ nat (- e))"

text \<open>The exponent \<open>e\<close> with \<open>2\<^sup>e \<le> a < 2\<^sup>e\<^sup>+\<^sup>1\<close>, for a positive rational \<open>a\<close>.\<close>

definition floor_log2 :: "rat \<Rightarrow> int" where
  "floor_log2 a =
     (if 1 \<le> a then bit_length \<lfloor>a\<rfloor> - 1 else - bit_length (\<lceil>1 / a\<rceil> - 1))"

text \<open>Rounding to the nearest integer, a tie to the even one.\<close>

definition round_half_even :: "rat \<Rightarrow> int" where
  "round_half_even t =
     (let f = \<lfloor>t\<rfloor>; d = t - of_int f
      in if d < 1 / 2 then f else if 1 / 2 < d then f + 1 else if even f then f else f + 1)"

text \<open>
  The double nearest to a rational, ties to even: 53 significant bits, the least exponent
  - 1022 (below it the doubles are subnormal, with steps of \<open>2\<^sup>-\<^sup>1\<^sup>0\<^sup>7\<^sup>4\<close>), and an infinity
  when the rounded value reaches \<open>2\<^sup>1\<^sup>0\<^sup>2\<^sup>4\<close>.
\<close>

definition round_double :: "rat \<Rightarrow> py_float" where
  "round_double q =
     (if q = 0 then Finite 0
      else
        (let a = \<bar>q\<bar>;
             e = max (floor_log2 a) (- 1022);
             ulp = pow2 (e - 52);
             m = of_int (round_half_even (a / ulp)) * ulp
         in if pow2 1024 \<le> m then (if q < 0 then NegInf else PosInf)
            else Finite (if q < 0 then - m else m)))"

text \<open>The arithmetic of doubles; none of these operations raises.\<close>

fun f_abs :: "py_float \<Rightarrow> py_float" where
  "f_abs (Finite a) = Finite \<bar>a\<bar>"
| "f_abs PosInf = PosInf"
| "f_abs NegInf = PosInf"
| "f_abs NaN = NaN"

fun f_neg :: "py_float \<Rightarrow> py_float" where
  "f_neg (Finite a) = Finite (- a)"
| "f_neg PosInf = NegInf"
| "f_neg NegInf = PosInf"
| "f_neg NaN = NaN"

fun f_add :: "py_float \<Rightarrow> py_float \<Rightarrow> py_float" where
  "f_add (Finite a) (Finite b) = round_double (a + b)"
| "f_add NaN y = NaN"
| "f_add x NaN = NaN"
| "f_add PosInf NegInf = NaN"
| "f_add NegInf PosInf = NaN"
| "f_add PosInf y = PosInf"
| "f_add NegInf y = NegInf"
| "f_add x PosInf = PosInf"
| "f_add x NegInf = NegInf"

definition f_sub :: "py_float \<Rightarrow> py_float \<Rightarrow> py_float" where
  "f_sub x y = f_add x (f_neg y)"

text \<open>The sign of a double: - 1, 0 or 1; that of NaN is not asked for.\<close>

fun f_sgn :: "py_float \<Rightarrow> int" where
  "f_sgn (Finite a) = (if a < 0 then - 1 else if a = 0 then 0 else 1)"
| "f_sgn PosInf = 1"
| "f_sgn NegInf = - 1"
| "f_sgn NaN = 0"

definition signed_inf :: "int \<Rightarrow> py_float" where
  "signed_inf s = (if s < 0 then NegInf else PosInf)"

fun f_mul :: "py_float \<Rightarrow> py_float \<Rightarrow> py_float" where
  "f_mul (Finite a) (Finite b) = round_double (a * b)"
| "f_mul NaN y = NaN"
| "f_mul x NaN = NaN"
| "f_mul x y = (if f_sgn x * f_sgn y = 0 then NaN else signed_inf (f_sgn x * f_sgn y))"

text \<open>Division of doubles by a double that is not zero.\<close>

fun f_div :: "py_float \<Rightarrow> py_float \<Rightarrow> py_float" where
  "f_div (Finite a) (Finite b) = round_double (a / b)"
| "f_div NaN y = NaN"
| "f_div x NaN = NaN"
| "f_div (Finite a) y = Finite 0"
| "f_div x (Finite b) = signed_inf (f_sgn x * f_sgn (Finite b))"
| "f_div x y = NaN"

text \<open>
  \<^verbatim>\<open>float(i)\<close> as the mixed operations apply it to an \<^verbatim>\<open>int\<close>: the nearest double, and
  \<^verbatim>\<open>OverflowError\<close> (int too large to convert to float) when that is no finite double.
\<close>

definition to_float :: "int \<Rightarrow> py_error + py_float" where
  "to_float i =
     (case round_double (of_int i) of Finite q \<Rightarrow> Inr (Finite q) | _ \<Rightarrow> Inl OverflowError)"

fun as_float :: "py_num \<Rightarrow> py_error + py_float" where
  "as_float (PyInt i) = to_float i"
| "as_float (PyFloat x) = Inr x"

text \<open>\<^verbatim>\<open>abs(x)\<close>\<close>

fun py_abs :: "py_num \<Rightarrow> py_num" where
  "py_abs (PyInt i) = PyInt \<bar>i\<bar>"
| "py_abs (PyFloat x) = PyFloat (f_abs x)"

text \<open>
  A binary operation on two numbers of which one at least is a \<^verbatim>\<open>float\<close>: the other is
  converted first.
\<close>

definition float_op ::
  "(py_float \<Rightarrow> py_float \<Rightarrow> py_float) \<Rightarrow> py_num \<Rightarrow> py_num \<Rightarrow> py_error + py_num" where
  "float_op f a b =
     py_then (as_float a) (\<lambda>x. py_then (as_float b) (\<lambda>y. Inr (PyFloat (f x y))))"

text \<open>\<^verbatim>\<open>a * b\<close>, \<^verbatim>\<open>a + b\<close> and \<^verbatim>\<open>a - b\<close>: exact on two ints.\<close>

fun py_mul :: "py_num \<Rightarrow> py_num \<Rightarrow> py_error + py_num" where
  "py_mul (PyInt i) (PyInt j) = Inr (PyInt (i * j))"
| "py_mul a b = float_op f_mul a b"

fun py_add :: "py_num \<Rightarrow> py_num \<Rightarrow> py_error + py_num" where
  "py_add (PyInt i) (PyInt j) = Inr (PyInt (i + j))"
| "py_add a b = float_op f_add a b"

fun py_sub :: "py_num \<Rightarrow> py_num \<Rightarrow> py_error + py_num" where
  "py_sub (PyInt i) (PyInt j) = Inr (PyInt (i - j))"
| "py_sub a b = float_op f_sub a b"

text \<open>
  \<^verbatim>\<open>a / b\<close>, true division. On two ints: \<^verbatim>\<open>ZeroDivisionError\<close> for the divisor 0, else
  the double nearest to the quotient, and \<^verbatim>\<open>OverflowError\<close> (integer division result too
  large for a float) when that is not finite. With a float: both operands are converted,
  then \<^verbatim>\<open>ZeroDivisionError\<close> for a zero divisor, else the division of doubles.
\<close>

fun py_truediv :: "py_num \<Rightarrow> py_num \<Rightarrow> py_error + py_num" where
  "py_truediv (PyInt i) (PyInt j) =
     (if j = 0 then Inl ZeroDivisionError
      else (case round_double (of_int i / of_int j) of
              Finite q \<Rightarrow> Inr (PyFloat (Finite q))
            | _ \<Rightarrow> Inl OverflowError))"
| "py_truediv a b =
     py_then (as_float a) (\<lambda>x. py_then (as_float b) (\<lambda>y.
       if y = Finite 0 then Inl ZeroDivisionError else Inr (PyFloat (f_div x y))))"

text \<open>
  \<^verbatim>\<open>sum(xs)\<close>, which starts from the int 0. While the elements are ints the sum is exact.
  From the first float on the sum is a float: the int reached so far and every later int
  are converted, which raises \<^verbatim>\<open>OverflowError\<close> for one too large, and the doubles are
  added. In which order and with which compensation they are added depends on the
  version of CPython (from 3.12 on the additions are compensated), so the result is left
  to the parameter \<open>fsum\<close>: \<open>fsum start xs\<close> is the double that the version at hand
  returns from the float \<open>start\<close> and the remaining elements \<open>xs\<close>.
\<close>

type_synonym float_sum = "py_float \<Rightarrow> py_num list \<Rightarrow> py_float"

fun convertible :: "py_num \<Rightarrow> bool" where
  "convertible (PyInt i) = (case to_float i of Inl e \<Rightarrow> False | Inr x \<Rightarrow> True)"
| "convertible (PyFloat x) = True"

fun py_sum_from :: "float_sum \<Rightarrow> int \<Rightarrow> py_num list \<Rightarrow> py_error + py_num" where
  "py_sum_from fsum acc [] = Inr (PyInt acc)"
| "py_sum_from fsum acc (PyInt i # xs) = py_sum_from fsum (acc + i) xs"
| "py_sum_from fsum acc (PyFloat x # xs) =
     py_then (to_float acc) (\<lambda>start.
       if list_all convertible xs then Inr (PyFloat (fsum start (PyFloat x # xs)))
       else Inl OverflowError)"

definition py_sum :: "float_sum \<Rightarrow> py_num list \<Rightarrow> py_error + py_num" where
  "py_sum fsum xs = py_sum_from fsum 0 xs"

text \<open>
  The summation of CPython up to 3.11, one addition after the other from the left; an
  element that does not convert counts as NaN, and \<open>py_sum\<close> passes no such element.
\<close>

definition left_to_right_sum :: float_sum where
  "left_to_right_sum start xs =
     foldl (\<lambda>acc x. f_add acc (case as_float x of Inl e \<Rightarrow> NaN | Inr y \<Rightarrow> y)) start xs"




section \<open>Impact calculator\<close>

text \<open>
  Modelled from the spec: the response classes \<^verbatim>\<open>MeasurementResponse\<close> and
  \<^verbatim>\<open>SpotPricesResponse\<close> of \<^verbatim>\<open>api_response.py\<close>, which is not among the sources. A
  measurement response exposes nested interval groups, each with an ordered list of
  measurements; a spot-price response exposes the measurement list of a single interval.
  The calculator reads them through the attribute paths \<^verbatim>\<open>.interval.measurements\<close>,
  \<^verbatim>\<open>.intervals.electricity[0].measurements\<close> and \<^verbatim>\<open>.value\<close> only, and the records
  below carry exactly these attributes; a value is a number.
\<close>

record measurement =
  val :: py_num

record interval_t =
  measurements :: "measurement list"

record intervals_t =
  electricity :: "interval_t list"

record MeasurementResponse =
  intervals :: intervals_t

record SpotPricesResponse =
  interval :: interval_t

text \<open>
  \<^verbatim>\<open>for i in range(length): xs.append(abs(hourly_prices[i].value)*abs(hourly_measurements[i].value))\<close>
  The loop stops at the first product that raises.
\<close>

definition hourly_weighted_consumption_prices ::
  "measurement list \<Rightarrow> measurement list \<Rightarrow> nat \<Rightarrow> py_error + py_num list" where
  "hourly_weighted_consumption_prices hourly_prices hourly_measurements len =
     foldl (\<lambda>acc i. py_then acc (\<lambda>xs.
              py_then (py_mul (py_abs (val (hourly_prices ! i)))
                         (py_abs (val (hourly_measurements ! i))))
                (\<lambda>w. Inr (xs @ [w]))))
       (Inr []) [0..<len]"

text \<open>
  \<^verbatim>\<open>sum(map(lambda price: abs(price.value), hourly_prices))/hourly_prices.__len__()\<close>
\<close>

definition monthly_average_price :: "float_sum \<Rightarrow> measurement list \<Rightarrow> py_error + py_num" where
  "monthly_average_price fsum hourly_prices =
     py_then (py_sum fsum (map (\<lambda>price. py_abs (val price)) hourly_prices)) (\<lambda>s.
       py_truediv s (PyInt (int (length hourly_prices))))"

text \<open>\<^verbatim>\<open>sum(map(lambda measurement: abs(measurement.value), hourly_measurements))\<close>\<close>

definition total_consumption :: "float_sum \<Rightarrow> measurement list \<Rightarrow> py_error + py_num" where
  "total_consumption fsum hourly_measurements =
     py_sum fsum (map (\<lambda>measurement. py_abs (val measurement)) hourly_measurements)"

text \<open>
  The body of \<^verbatim>\<open>calculate_impact_of_usage_between_dates\<close> from the two series on
  (lines 55 to 66), statement by statement.
\<close>

definition impact_of_series ::
  "float_sum \<Rightarrow> measurement list \<Rightarrow> measurement list \<Rightarrow> py_error + py_num" where
  "impact_of_series fsum hourly_prices hourly_measurements =
     (let len = min (length hourly_prices) (length hourly_measurements)
      in py_then (hourly_weighted_consumption_prices hourly_prices hourly_measurements len)
           (\<lambda>weighted.
         py_then (monthly_average_price fsum hourly_prices) (\<lambda>average.
         py_then (total_consumption fsum hourly_measurements) (\<lambda>total.
         py_then (py_sum fsum weighted) (\<lambda>total_hourly_weighted_consumption_prices.
         py_then (py_mul average total) (\<lambda>total_consumption_average_price.
         py_then (py_sub total_hourly_weighted_consumption_prices
                    total_consumption_average_price) (\<lambda>difference.
           py_truediv difference total)))))))"

text \<open>
  The whole method, given the responses that the two fetches returned:
  \<^verbatim>\<open>electricity[0]\<close> raises on an empty list of interval groups.
\<close>

definition calculate_impact_of_usage_between_dates ::
  "float_sum \<Rightarrow> SpotPricesResponse \<Rightarrow> MeasurementResponse \<Rightarrow> py_error + py_num" where
  "calculate_impact_of_usage_between_dates fsum spot_prices hourly =
     (let hourly_prices = measurements (interval spot_prices)
      in case electricity (intervals hourly) of
           [] \<Rightarrow> Inl IndexError
         | first # _ \<Rightarrow> impact_of_series fsum hourly_prices (measurements first))"

text \<open>Building responses from plain lists of numbers, for concrete cases.\<close>

definition series :: "py_num list \<Rightarrow> measurement list" where
  "series vs = map (\<lambda>v. \<lparr>val = v\<rparr>) vs"

definition spot_response :: "py_num list \<Rightarrow> SpotPricesResponse" where
  "spot_response vs = \<lparr>interval = \<lparr>measurements = series vs\<rparr>\<rparr>"

definition measurement_response :: "py_num list list \<Rightarrow> MeasurementResponse" where
  "measurement_response groups =
     \<lparr>intervals = \<lparr>electricity = map (\<lambda>vs. \<lparr>measurements = series vs\<rparr>) groups\<rparr>\<rparr>"

text \<open>
  The calculation in the words of the specification, to compare the method with: the
  products \<open>\<bar>price\<bar> * \<bar>measurement\<bar>\<close> of the pairs of one list of prices and one list of
  measurements, the average of a second list of prices, the total of a second list of
  measurements, and the impact \<open>(totalWeighted - average * total) / total\<close>.
\<close>

fun collect :: "(py_error + 'a) list \<Rightarrow> py_error + 'a list" where
  "collect [] = Inr []"
| "collect (r # rs) = py_then r (\<lambda>x. py_then (collect rs) (\<lambda>xs. Inr (x # xs)))"

definition impact_formula ::
  "float_sum \<Rightarrow> py_num list \<Rightarrow> py_num list \<Rightarrow> py_num list \<Rightarrow> py_num list
     \<Rightarrow> py_error + py_num" where
  "impact_formula fsum weighted_prices weighted_measurements all_prices all_measurements =
     py_then (collect (map2 (\<lambda>p m. py_mul (py_abs p) (py_abs m))
                weighted_prices weighted_measurements)) (\<lambda>weighted.
     py_then (py_then (py_sum fsum (map py_abs all_prices))
                (\<lambda>s. py_truediv s (PyInt (int (length all_prices))))) (\<lambda>average.
     py_then (py_sum fsum (map py_abs all_measurements)) (\<lambda>total.
     py_then (py_sum fsum weighted) (\<lambda>total_weighted.
     py_then (py_mul average total) (\<lambda>baseline.
     py_then (py_sub total_weighted baseline) (\<lambda>difference.
       py_truediv difference total))))))"

section \<open>Calendar dates\<close>

text \<open>
  The date part of Python's \<^verbatim>\<open>date\<close> and \<^verbatim>\<open>datetime\<close> objects. The time-of-day
  fields of \<^verbatim>\<open>datetime.today()\<close> are carried along unchanged by every operation below and
  never read by the window builders, so they are left out.
\<close>

record date =
  year :: int
  month :: int
  day :: int

text \<open>\<^verbatim>\<open>calendar.isleap\<close> and the table \<^verbatim>\<open>calendar.mdays\<close>.\<close>

definition isleap :: "int \<Rightarrow> bool" where
  "isleap y = (y mod 4 = 0 \<and> (y mod 100 \<noteq> 0 \<or> y mod 400 = 0))"

definition mdays :: "int list" where
  "mdays = [0, 31, 28, 31, 30, 31, 30, 31, 31, 30, 31, 30, 31]"

text \<open>
  The number of days of a month, for a month in 1..12:
  \<^verbatim>\<open>mdays[month] + (month == FEBRUARY and isleap(year))\<close>.
\<close>

definition days_in_month :: "int \<Rightarrow> int \<Rightarrow> int" where
  "days_in_month y m = mdays ! nat m + (if m = 2 \<and> isleap y then 1 else 0)"

text \<open>
  \<^verbatim>\<open>calendar.monthrange(year, month)[-1]\<close>: the second component of the pair; a month
  outside 1..12 raises \<^verbatim>\<open>IllegalMonthError\<close>, a \<^verbatim>\<open>ValueError\<close>.
\<close>

definition monthrange_last :: "int \<Rightarrow> int \<Rightarrow> py_error + int" where
  "monthrange_last y m =
     (if \<not> (1 \<le> m \<and> m \<le> 12) then Inl ValueError else Inr (days_in_month y m))"

text \<open>The check of the \<^verbatim>\<open>date\<close> constructor: years 1 to 9999, a month, a day of it.\<close>

definition valid_date :: "date \<Rightarrow> bool" where
  "valid_date d =
     (1 \<le> year d \<and> year d \<le> 9999 \<and> 1 \<le> month d \<and> month d \<le> 12
      \<and> 1 \<le> day d \<and> day d \<le> days_in_month (year d) (month d))"

definition make_date :: "int \<Rightarrow> int \<Rightarrow> int \<Rightarrow> py_error + date" where
  "make_date y m d =
     (let r = \<lparr>year = y, month = m, day = d\<rparr>
      in if valid_date r then Inr r else Inl ValueError)"

text \<open>
  \<^verbatim>\<open>dt.replace(year=..., month=..., day=...)\<close>: the fields given replace the old ones
  together, and the result is checked as a whole.
\<close>

definition date_replace :: "date \<Rightarrow> int option \<Rightarrow> int option \<Rightarrow> int option \<Rightarrow> py_error + date" where
  "date_replace dt y m d =
     make_date (case y of None \<Rightarrow> year dt | Some v \<Rightarrow> v)
       (case m of None \<Rightarrow> month dt | Some v \<Rightarrow> v)
       (case d of None \<Rightarrow> day dt | Some v \<Rightarrow> v)"

text \<open>
  \<^verbatim>\<open>dt + timedelta(days=n)\<close>, one day at a time; leaving the years 1 to 9999 raises
  \<^verbatim>\<open>OverflowError\<close>.
\<close>

definition previous_date :: "date \<Rightarrow> py_error + date" where
  "previous_date dt =
     (if 1 < day dt then Inr (dt\<lparr>day := day dt - 1\<rparr>)
      else if 1 < month dt
        then Inr (dt\<lparr>month := month dt - 1, day := days_in_month (year dt) (month dt - 1)\<rparr>)
      else if 1 < year dt then Inr \<lparr>year = year dt - 1, month = 12, day = 31\<rparr>
      else Inl OverflowError)"

definition next_date :: "date \<Rightarrow> py_error + date" where
  "next_date dt =
     (if day dt < days_in_month (year dt) (month dt) then Inr (dt\<lparr>day := day dt + 1\<rparr>)
      else if month dt < 12 then Inr (dt\<lparr>month := month dt + 1, day := 1\<rparr>)
      else if year dt < 9999 then Inr \<lparr>year = year dt + 1, month = 1, day = 1\<rparr>
      else Inl OverflowError)"

function date_add_days :: "date \<Rightarrow> int \<Rightarrow> py_error + date" where
  "date_add_days dt n =
     (if n = 0 then Inr dt
      else if n < 0 then py_then (previous_date dt) (\<lambda>p. date_add_days p (n + 1))
      else py_then (next_date dt) (\<lambda>p. date_add_days p (n - 1)))"
  by pat_completeness auto
termination
  by (relation "measure (\<lambda>(dt, n). nat \<bar>n\<bar>)") auto

text \<open>
  \<^verbatim>\<open>dt + relativedelta(months=ms, days=ds)\<close> of dateutil, for \<open>\<bar>ms\<bar> \<le> 12\<close>: the month
  moves first, with the year carried; the day is cut down to the length of the month
  reached; the days are added last, as a \<^verbatim>\<open>timedelta\<close>.
\<close>

definition relativedelta_add :: "date \<Rightarrow> int \<Rightarrow> int \<Rightarrow> py_error + date" where
  "relativedelta_add dt ms ds =
     (let m0 = month dt + ms;
          y = (if m0 > 12 then year dt + 1 else if m0 < 1 then year dt - 1 else year dt);
          m = (if m0 > 12 then m0 - 12 else if m0 < 1 then m0 + 12 else m0);
          d = min (days_in_month y m) (day dt)
      in py_then (date_replace dt (Some y) (Some m) (Some d)) (\<lambda>r. date_add_days r ds))"

text \<open>
  \<^verbatim>\<open>date.toordinal()\<close>: the number of the day, counting 0001-01-01 as day 1. It is used
  below only to say what "the day before" means.
\<close>

definition days_before_year :: "int \<Rightarrow> int" where
  "days_before_year y = (y - 1) * 365 + (y - 1) div 4 - (y - 1) div 100 + (y - 1) div 400"

definition days_before_month :: "int \<Rightarrow> int \<Rightarrow> int" where
  "days_before_month y m = sum_list (map (days_in_month y) [1..m - 1])"

definition toordinal :: "date \<Rightarrow> int" where
  "toordinal d = days_before_year (year d) + days_before_month (year d) (month d) + day d"

section \<open>Numbers and dates as text\<close>

definition digit :: "nat \<Rightarrow> char" where
  "digit n = ''0123456789'' ! (n mod 10)"

fun str_nat :: "nat \<Rightarrow> string" where
  "str_nat n = (if n < 10 then [digit n] else str_nat (n div 10) @ [digit n])"

declare str_nat.simps [simp del]

text \<open>\<^verbatim>\<open>str(i)\<close> and \<^verbatim>\<open>f"{i}"\<close> of an integer.\<close>

definition str_int :: "int \<Rightarrow> string" where
  "str_int i = (if i < 0 then CHR ''-'' # str_nat (nat (- i)) else str_nat (nat i))"

text \<open>\<^verbatim>\<open>"%0wd" % i\<close> for \<open>i \<ge> 0\<close>.\<close>

definition zero_padded :: "nat \<Rightarrow> int \<Rightarrow> string" where
  "zero_padded w i = (let s = str_int i in replicate (w - length s) CHR ''0'' @ s)"

text \<open>\<^verbatim>\<open>str(d)\<close> of a date: \<^verbatim>\<open>"%04d-%02d-%02d" % (year, month, day)\<close>.\<close>

definition str_date :: "date \<Rightarrow> string" where
  "str_date d = zero_padded 4 (year d) @ ''-'' @ zero_padded 2 (month d) @ ''-''
     @ zero_padded 2 (day d)"

section \<open>Time-window builders\<close>

text \<open>
  \<^verbatim>\<open>get_daily_measurements_by_month\<close>, lines 73 to 80: \<open>today\<close> is the value of
  \<^verbatim>\<open>datetime.today()\<close>; the result is the pair \<^verbatim>\<open>(start_time, end_time)\<close>.
\<close>

definition daily_window :: "date \<Rightarrow> int \<Rightarrow> py_error + (string \<times> string)" where
  "daily_window today m =
     py_then (date_replace today None (Some m) (Some 1)) (\<lambda>wanted_month_first_day.
     py_then (monthrange_last (year wanted_month_first_day) m) (\<lambda>n.
     py_then (date_replace today None (Some m) (Some n)) (\<lambda>wanted_month_last_day.
     py_then (relativedelta_add wanted_month_last_day (- 1) 0) (\<lambda>previous_month.
     py_then (monthrange_last (year previous_month) (month previous_month)) (\<lambda>k.
     py_then (date_replace previous_month None None (Some k)) (\<lambda>previous_month_last_day.
       Inr (str_int (year previous_month_last_day) @ ''-''
              @ str_int (month previous_month_last_day) @ ''-''
              @ str_int (day previous_month_last_day) @ ''T21:00:00.000Z'',
            str_int (year wanted_month_last_day) @ ''-''
              @ str_int (month wanted_month_last_day) @ ''-''
              @ str_int (day wanted_month_last_day) @ ''T20:59:59.999Z'')))))))"

text \<open>\<^verbatim>\<open>get_monthly_measurements_by_year\<close>, lines 102 to 104.\<close>

definition monthly_window :: "int \<Rightarrow> string \<times> string" where
  "monthly_window y =
     (let last_year = y - 1
      in (str_int last_year @ ''-12-31T22:00:00+00:00'', str_int y @ ''-12-31T21:59:59+00:00''))"

text \<open>\<^verbatim>\<open>get_hourly_measurements_between_dates\<close>, lines 127 to 129.\<close>

definition hourly_measurements_window :: "date \<Rightarrow> date \<Rightarrow> py_error + (string \<times> string)" where
  "hourly_measurements_window start end_date =
     py_then (relativedelta_add start 0 (- 1)) (\<lambda>previous_day.
       Inr (str_date previous_day @ ''T22:00:00+00:00'', str_date end_date @ ''T21:59:59+00:00''))"

text \<open>\<^verbatim>\<open>get_hourly_spot_prices_between_dates\<close>, lines 152 to 154.\<close>

definition hourly_spot_prices_window :: "date \<Rightarrow> date \<Rightarrow> py_error + (string \<times> string)" where
  "hourly_spot_prices_window start end_date =
     py_then (relativedelta_add start 0 (- 1)) (\<lambda>previous_day.
       Inr (str_date previous_day @ ''T22:00:00+00:00'', str_date end_date @ ''T21:59:59+00:00''))"

text \<open>
  What the specification calls the last day of a month and the month before a month, and
  the unpadded rendering \<^verbatim>\<open>y-m-d\<close> of a date, to compare the builders with.
\<close>

definition month_before :: "int \<Rightarrow> int \<Rightarrow> int \<times> int" where
  "month_before y m = (if m = 1 then (y - 1, 12) else (y, m - 1))"

definition last_day_of_month :: "int \<times> int \<Rightarrow> date" where
  "last_day_of_month ym =
     \<lparr>year = fst ym, month = snd ym, day = days_in_month (fst ym) (snd ym)\<rparr>"

definition unpadded :: "date \<Rightarrow> string" where
  "unpadded d = str_int (year d) @ ''-'' @ str_int (month d) @ ''-'' @ str_int (day d)"

section \<open>JSON values\<close>

text \<open>
  The value of \<^verbatim>\<open>response.json()\<close>: Python's \<^verbatim>\<open>None\<close>, booleans, numbers, strings,
  lists and dictionaries with string keys (an association list with distinct keys).
\<close>

datatype json =
    JNull
  | JBool bool
  | JNum rat
  | JStr string
  | JArr "json list"
  | JObj "(string \<times> json) list"

text \<open>The truth value that \<^verbatim>\<open>filter\<close> takes of what its function returns.\<close>

fun truthy :: "json \<Rightarrow> bool" where
  "truthy JNull = False"
| "truthy (JBool b) = b"
| "truthy (JNum n) = (n \<noteq> 0)"
| "truthy (JStr s) = (s \<noteq> [])"
| "truthy (JArr xs) = (xs \<noteq> [])"
| "truthy (JObj kvs) = (kvs \<noteq> [])"

text \<open>
  \<^verbatim>\<open>xs[i]\<close> on a sequence: position \<open>i\<close> from the front when \<open>i\<close> is not negative,
  position \<open>- i\<close> from the back otherwise, and \<^verbatim>\<open>IndexError\<close> outside the sequence.
\<close>

definition sequence_item :: "'a list \<Rightarrow> int \<Rightarrow> py_error + 'a" where
  "sequence_item xs i =
     (if 0 \<le> i
      then (if nat i < length xs then Inr (xs ! nat i) else Inl IndexError)
      else (if nat (- i) \<le> length xs then Inr (xs ! (length xs - nat (- i)))
            else Inl IndexError))"

text \<open>
  \<^verbatim>\<open>x[i]\<close> for an integer \<open>i\<close> on a JSON value: lists and strings are sequences; a
  dictionary of string keys has no integer key; the other values cannot be subscripted.
\<close>

fun getitem_index :: "json \<Rightarrow> int \<Rightarrow> py_error + json" where
  "getitem_index (JArr xs) i = sequence_item xs i"
| "getitem_index (JStr s) i = map_sum id (\<lambda>c. JStr [c]) (sequence_item s i)"
| "getitem_index (JObj kvs) i = Inl KeyError"
| "getitem_index v i = Inl TypeError"

text \<open>\<^verbatim>\<open>x[k]\<close> for a string \<open>k\<close>: only a dictionary has string keys.\<close>

fun getitem_key :: "json \<Rightarrow> string \<Rightarrow> py_error + json" where
  "getitem_key (JObj kvs) k = (case map_of kvs k of None \<Rightarrow> Inl KeyError | Some v \<Rightarrow> Inr v)"
| "getitem_key v k = Inl TypeError"

text \<open>
  The elements that iterating over a value yields: those of a list, the keys of a
  dictionary, the characters of a string; the other values are not iterable.
\<close>

fun iter_json :: "json \<Rightarrow> py_error + json list" where
  "iter_json (JArr xs) = Inr xs"
| "iter_json (JObj kvs) = Inr (map (\<lambda>kv. JStr (fst kv)) kvs)"
| "iter_json (JStr s) = Inr (map (\<lambda>c. JStr [c]) s)"
| "iter_json v = Inl TypeError"

section \<open>Contract data\<close>

text \<open>
  \<^verbatim>\<open>next(filter(lambda component: component["is_base_price"], contract_components))\<close>:
  the first element whose flag is true; \<^verbatim>\<open>next\<close> raises \<^verbatim>\<open>StopIteration\<close> when the
  elements run out, and the subscript raises on an element without the key.
\<close>

fun next_filter_is_base_price :: "json list \<Rightarrow> py_error + json" where
  "next_filter_is_base_price [] = Inl StopIteration"
| "next_filter_is_base_price (component # rest) =
     (case getitem_key component ''is_base_price'' of
        Inl e \<Rightarrow> Inl e
      | Inr flag \<Rightarrow> if truthy flag then Inr component else next_filter_is_base_price rest)"

text \<open>\<^verbatim>\<open>contract_data[0]["products"][0]["components"]\<close>\<close>

definition contract_components :: "json \<Rightarrow> py_error + json" where
  "contract_components contract_data =
     py_then (getitem_index contract_data 0) (\<lambda>contract.
     py_then (getitem_key contract ''products'') (\<lambda>products.
     py_then (getitem_index products 0) (\<lambda>product.
       getitem_key product ''components'')))"

text \<open>
  \<^verbatim>\<open>get_contract_base_price\<close>, from the value of \<^verbatim>\<open>get_contract_data_json()\<close> on.
\<close>

definition get_contract_base_price :: "json \<Rightarrow> py_error + json" where
  "get_contract_base_price contract_data =
     py_then (contract_components contract_data) (\<lambda>components.
     py_then (iter_json components) (\<lambda>elements.
     py_then (next_filter_is_base_price elements) (\<lambda>base_price_component.
       getitem_key base_price_component ''price'')))"

text \<open>\<^verbatim>\<open>get_delivery_site_id\<close>, from the contract data on.\<close>

definition get_delivery_site_id :: "json \<Rightarrow> py_error + json" where
  "get_delivery_site_id contract_data =
     py_then (getitem_index contract_data 0) (\<lambda>contract.
     py_then (getitem_key contract ''delivery_site'') (\<lambda>site.
       getitem_key site ''id''))"

text \<open>
  A component as the contract endpoint sends it: a dictionary whose \<^verbatim>\<open>is_base_price\<close> is
  a boolean; it is flagged when the boolean is true.
\<close>

fun component_flag :: "json \<Rightarrow> bool option" where
  "component_flag (JObj kvs) =
     (case map_of kvs ''is_base_price'' of Some (JBool b) \<Rightarrow> Some b | _ \<Rightarrow> None)"
| "component_flag v = None"

definition is_component :: "json \<Rightarrow> bool" where
  "is_component c = (component_flag c \<noteq> None)"

definition flagged :: "json \<Rightarrow> bool" where
  "flagged c = (component_flag c = Some True)"

section \<open>Requests of the hourly fetches\<close>

definition HELEN_API_URL :: string where
  "HELEN_API_URL = ''https://api.omahelen.fi/v7''"

definition HELEN_API_URL_V8 :: string where
  "HELEN_API_URL_V8 = ''https://api.omahelen.fi/v8''"

definition MEASUREMENTS_ENDPOINT :: string where
  "MEASUREMENTS_ENDPOINT = ''/measurements/electricity''"

definition SPOT_PRICES_ENDPOINT :: string where
  "SPOT_PRICES_ENDPOINT = MEASUREMENTS_ENDPOINT @ ''/spot-prices''"

record request =
  url :: string
  params :: "(string \<times> json) list"

text \<open>
  The URL and the parameters that \<^verbatim>\<open>get_hourly_measurements_between_dates\<close> passes to
  \<^verbatim>\<open>get\<close>, given the delivery site id that the contract data gave.
\<close>

definition hourly_measurements_request :: "date \<Rightarrow> date \<Rightarrow> json \<Rightarrow> py_error + request" where
  "hourly_measurements_request start end_date delivery_site_id =
     py_then (hourly_measurements_window start end_date) (\<lambda>window.
       Inr \<lparr>url = HELEN_API_URL @ MEASUREMENTS_ENDPOINT,
            params = [(''begin'', JStr (fst window)), (''end'', JStr (snd window)),
                      (''resolution'', JStr ''hour''), (''delivery_site_id'', delivery_site_id),
                      (''allow_transfer'', JStr ''true'')]\<rparr>)"

text \<open>The same for \<^verbatim>\<open>get_hourly_spot_prices_between_dates\<close>.\<close>

definition hourly_spot_prices_request :: "date \<Rightarrow> date \<Rightarrow> json \<Rightarrow> py_error + request" where
  "hourly_spot_prices_request start end_date delivery_site_id =
     py_then (hourly_spot_prices_window start end_date) (\<lambda>window.
       Inr \<lparr>url = HELEN_API_URL_V8 @ SPOT_PRICES_ENDPOINT,
            params = [(''begin'', JStr (fst window)), (''end'', JStr (snd window)),
                      (''resolution'', JStr ''hour''), (''delivery_site_id'', delivery_site_id),
                      (''allow_transfer'', JStr ''true'')]\<rparr>)"

text \<open>The time window of a request: its \<^verbatim>\<open>begin\<close> and \<^verbatim>\<open>end\<close> parameters.\<close>

definition request_window :: "request \<Rightarrow> json option \<times> json option" where
  "request_window r = (map_of (params r) ''begin'', map_of (params r) ''end'')"

section \<open>Session validity\<close>

text \<open>
  A \<^verbatim>\<open>datetime\<close> is the number of microseconds since \<^verbatim>\<open>datetime.min\<close>,
  0001-01-01T00:00:00; \<^verbatim>\<open>datetime.max\<close> is the last microsecond of the year 9999, whose
  last day has ordinal 3652059. Subtracting a \<^verbatim>\<open>timedelta\<close> raises \<^verbatim>\<open>OverflowError\<close>
  when the result leaves this range.
\<close>

definition datetime_max :: int where
  "datetime_max = 3652059 * 86400000000 - 1"

definition timedelta_hours :: "int \<Rightarrow> int" where
  "timedelta_hours h = h * 3600000000"

definition datetime_sub :: "int \<Rightarrow> int \<Rightarrow> py_error + int" where
  "datetime_sub dt delta =
     (let r = dt - delta in if 0 \<le> r \<and> r \<le> datetime_max then Inr r else Inl OverflowError)"

record HelenApiClient =
  latest_login_time :: "int option"

text \<open>The class attribute \<^verbatim>\<open>_latest_login_time: datetime = None\<close> of a new client.\<close>

definition new_client :: HelenApiClient where
  "new_client = \<lparr>latest_login_time = None\<rparr>"

text \<open>
  \<^verbatim>\<open>login\<close>, when \<^verbatim>\<open>HelenSession().login\<close> has returned: \<open>now\<close> is the value of
  \<^verbatim>\<open>datetime.now()\<close>.
\<close>

definition login :: "HelenApiClient \<Rightarrow> int \<Rightarrow> HelenApiClient" where
  "login self now = self\<lparr>latest_login_time := Some now\<rparr>"

text \<open>\<^verbatim>\<open>is_session_valid\<close>; \<open>now\<close> is the value of \<^verbatim>\<open>datetime.now()\<close>.\<close>

definition is_session_valid :: "HelenApiClient \<Rightarrow> int \<Rightarrow> py_error + bool" where
  "is_session_valid self now =
     (case latest_login_time self of
        None \<Rightarrow> Inr False
      | Some latest \<Rightarrow>
          py_then (datetime_sub now (timedelta_hours 1)) (\<lambda>hour_ago.
            Inr (hour_ago \<le> latest \<and> latest \<le> now)))"

section \<open>Response cache\<close>












section \<open>Properties of the impact calculator\<close>

lemma py_then_simps [simp]:
  "py_then (Inl e) f = Inl e" "py_then (Inr v) f = f v"
  by (simp_all add: py_then_def)

lemma weighted_foldl:
  "foldl (\<lambda>acc i. py_then acc (\<lambda>xs. py_then (f i) (\<lambda>w. Inr (xs @ [w])))) acc0 is =
     py_then acc0 (\<lambda>xs. py_then (collect (map f is)) (\<lambda>ys. Inr (xs @ ys)))"
proof (induction "is" arbitrary: acc0)
  case Nil
  then show ?case by (cases acc0) simp_all
next
  case (Cons i "is")
  show ?case
    by (cases acc0; cases "f i"; cases "collect (map f is)") (simp_all add: Cons.IH)
qed

lemma hourly_weighted_collect:
  "hourly_weighted_consumption_prices ps ms n =
     collect (map (\<lambda>i. py_mul (py_abs (val (ps ! i))) (py_abs (val (ms ! i)))) [0..<n])"
  unfolding hourly_weighted_consumption_prices_def weighted_foldl
  by (cases "collect (map (\<lambda>i. py_mul (py_abs (val (ps ! i))) (py_abs (val (ms ! i)))) [0..<n])")
     simp_all

lemma index_map2:
  "map (\<lambda>i. g (xs ! i) (ys ! i)) [0..<min (length xs) (length ys)] = map2 g xs ys"
  by (rule nth_equalityI) simp_all

lemma map2_take_min:
  "map2 g (take (min (length xs) (length ys)) xs) (take (min (length xs) (length ys)) ys) =
     map2 g xs ys"
  by (simp add: take_zip [symmetric])

lemma map2_of_maps:
  "map2 (\<lambda>x y. h (f x) (g y)) xs ys = map2 h (map f xs) (map g ys)"
  by (induction xs ys rule: list_induct2') simp_all

lemma hourly_weighted_truncated:
  "hourly_weighted_consumption_prices ps ms (min (length ps) (length ms)) =
     collect (map2 (\<lambda>p m. py_mul (py_abs p) (py_abs m))
       (take (min (length ps) (length ms)) (map val ps))
       (take (min (length ps) (length ms)) (map val ms)))"
proof -
  have "map (\<lambda>i. py_mul (py_abs (val (ps ! i))) (py_abs (val (ms ! i))))
          [0..<min (length ps) (length ms)] =
        map2 (\<lambda>p m. py_mul (py_abs (val p)) (py_abs (val m))) ps ms"
    by (rule index_map2)
  also have "\<dots> = map2 (\<lambda>p m. py_mul (py_abs p) (py_abs m)) (map val ps) (map val ms)"
    by (rule map2_of_maps)
  also have "\<dots> = map2 (\<lambda>p m. py_mul (py_abs p) (py_abs m))
       (take (min (length ps) (length ms)) (map val ps))
       (take (min (length ps) (length ms)) (map val ms))"
    using map2_take_min [of "\<lambda>p m. py_mul (py_abs p) (py_abs m)" "map val ps" "map val ms"]
    by simp
  finally show ?thesis by (simp add: hourly_weighted_collect)
qed

lemma floor_log2_values:
  "floor_log2 1 = 0" "floor_log2 2 = 1" "floor_log2 5 = 2" "floor_log2 10 = 3" "floor_log2 15 = 3" "floor_log2 20 = 4"
  "floor_log2 30 = 4" "floor_log2 40 = 5" "floor_log2 75 = 6" "floor_log2 80 = 6"
  by (simp_all add: floor_log2_def bit_length.simps)

lemma round_double_values:
  "round_double 1 = Finite 1" "round_double 2 = Finite 2" "round_double 5 = Finite 5" "round_double 15 = Finite 15"
  "round_double 20 = Finite 20" "round_double 30 = Finite 30" "round_double 40 = Finite 40" "round_double 75 = Finite 75"
  "round_double 80 = Finite 80" "round_double (- 5) = Finite (- 5)" "round_double (- 10) = Finite (- 10)"
  by (simp_all only: round_double_def Let_def abs_numeral abs_neg_numeral abs_one floor_log2_values)
     (simp_all add: pow2_def round_half_even_def)




lemma round_double_zero: "round_double 0 = Finite 0"
  by (simp add: round_double_def)


text \<open>
  C1. For the hourly prices [10, 20] and the hourly measurements [2, 3] the weighted series
  is [20, 60], the average price is 15.0, the total consumption is 5, and the calculator
  returns the float (80 - 15.0 * 5) / 5 = 1.0, whatever the summation of floats is.
\<close>

theorem impact_concrete_case:
  "hourly_weighted_consumption_prices (series [PyInt 10, PyInt 20])
       (series [PyInt 2, PyInt 3]) 2 = Inr [PyInt 20, PyInt 60]
   \<and> monthly_average_price fsum (series [PyInt 10, PyInt 20]) = Inr (PyFloat (Finite 15))
   \<and> total_consumption fsum (series [PyInt 2, PyInt 3]) = Inr (PyInt 5)
   \<and> calculate_impact_of_usage_between_dates fsum (spot_response [PyInt 10, PyInt 20])
        (measurement_response [[PyInt 2, PyInt 3]]) = Inr (PyFloat (Finite 1))"
  by (simp add: calculate_impact_of_usage_between_dates_def impact_of_series_def
      hourly_weighted_consumption_prices_def monthly_average_price_def total_consumption_def
      spot_response_def measurement_response_def series_def eval_nat_numeral Let_def
      py_sum_def float_op_def to_float_def f_sub_def round_double_values)

text \<open>
  C2. Whatever the lengths of the two series, and so also when they differ: with \<open>n\<close> the
  smaller length, the method computes the formula of the specification with the products
  taken over the first \<open>n\<close> prices and the first \<open>n\<close> measurements only, the average over
  all the prices and the total over all the measurements, and raises what the formula
  raises. This holds for every summation of floats.
\<close>

theorem impact_unequal_lengths:
  assumes "electricity (intervals hourly) = first # rest"
    and "hourly_prices = map val (measurements (interval spot_prices))"
    and "hourly_measurements = map val (measurements first)"
    and "n = min (length hourly_prices) (length hourly_measurements)"
  shows "calculate_impact_of_usage_between_dates fsum spot_prices hourly =
     impact_formula fsum (take n hourly_prices) (take n hourly_measurements)
       hourly_prices hourly_measurements"
  using assms
  by (simp add: calculate_impact_of_usage_between_dates_def impact_of_series_def Let_def
      impact_formula_def hourly_weighted_truncated monthly_average_price_def
      total_consumption_def comp_def)

text \<open>
  The case of the specification: prices [10, 20, 30] and measurements [1, 1]. The products
  are [10 * 1, 20 * 1], the average is 60 / 3 = 20.0 over the three prices, the total is 2,
  and the result is (30 - 20.0 * 2) / 2 = - 5.0.
\<close>

theorem impact_unequal_lengths_witness:
  "calculate_impact_of_usage_between_dates left_to_right_sum
       (spot_response [PyInt 10, PyInt 20, PyInt 30]) (measurement_response [[PyInt 1, PyInt 1]]) =
     impact_formula left_to_right_sum [PyInt 10, PyInt 20] [PyInt 1, PyInt 1]
       [PyInt 10, PyInt 20, PyInt 30] [PyInt 1, PyInt 1]
   \<and> impact_formula left_to_right_sum [PyInt 10, PyInt 20] [PyInt 1, PyInt 1]
       [PyInt 10, PyInt 20, PyInt 30] [PyInt 1, PyInt 1] = Inr (PyFloat (Finite (- 5)))
   \<and> hourly_weighted_consumption_prices (series [PyInt 10, PyInt 20, PyInt 30])
       (series [PyInt 1, PyInt 1]) 2 = Inr [PyInt 10, PyInt 20]
   \<and> monthly_average_price left_to_right_sum (series [PyInt 10, PyInt 20, PyInt 30]) =
       Inr (PyFloat (Finite 20))
   \<and> total_consumption left_to_right_sum (series [PyInt 1, PyInt 1]) = Inr (PyInt 2)"
proof -
  have e: "electricity (intervals (measurement_response [[PyInt 1, PyInt 1]])) =
      \<lparr>measurements = series [PyInt 1, PyInt 1]\<rparr> # []"
    by (simp add: measurement_response_def)
  have p: "[PyInt 10, PyInt 20, PyInt 30] =
      map val (measurements (interval (spot_response [PyInt 10, PyInt 20, PyInt 30])))"
    by (simp add: spot_response_def series_def)
  have m: "[PyInt 1, PyInt 1] = map val (measurements \<lparr>measurements = series [PyInt 1, PyInt 1]\<rparr>)"
    by (simp add: series_def)
  have n: "(2::nat) = min (length [PyInt 10, PyInt 20, PyInt 30]) (length [PyInt 1, PyInt 1])"
    by simp
  have f: "impact_formula left_to_right_sum [PyInt 10, PyInt 20] [PyInt 1, PyInt 1]
       [PyInt 10, PyInt 20, PyInt 30] [PyInt 1, PyInt 1] = Inr (PyFloat (Finite (- 5)))"
    by (simp add: impact_formula_def py_sum_def float_op_def to_float_def f_sub_def
        round_double_values)
  have w: "hourly_weighted_consumption_prices (series [PyInt 10, PyInt 20, PyInt 30])
       (series [PyInt 1, PyInt 1]) 2 = Inr [PyInt 10, PyInt 20]"
    by (simp add: hourly_weighted_consumption_prices_def series_def eval_nat_numeral)
  have a: "monthly_average_price left_to_right_sum (series [PyInt 10, PyInt 20, PyInt 30]) =
       Inr (PyFloat (Finite 20))"
    by (simp add: monthly_average_price_def series_def py_sum_def round_double_values)
  have t: "total_consumption left_to_right_sum (series [PyInt 1, PyInt 1]) = Inr (PyInt 2)"
    by (simp add: total_consumption_def series_def py_sum_def)
  show ?thesis
    using impact_unequal_lengths [OF e p m n, of left_to_right_sum] f w a t
    by simp
qed





















lemma f_add_zeros: "f_add (Finite 0) (Finite 0) = Finite 0"
  by (simp add: round_double_zero)







section \<open>Properties of the calendar\<close>

lemma month_cases:
  "1 \<le> m \<Longrightarrow> m \<le> 12 \<Longrightarrow> m \<in> {1, 2, 3, 4, 5, 6, 7, 8, 9, 10, 11, 12 :: int}"
  by (simp only: insert_iff empty_iff) presburger

lemma days_in_month_simps:
  "days_in_month y 1 = 31" "days_in_month y 2 = (if isleap y then 29 else 28)"
  "days_in_month y 3 = 31" "days_in_month y 4 = 30" "days_in_month y 5 = 31"
  "days_in_month y 6 = 30" "days_in_month y 7 = 31" "days_in_month y 8 = 31"
  "days_in_month y 9 = 30" "days_in_month y 10 = 31" "days_in_month y 11 = 30"
  "days_in_month y 12 = 31"
  by (simp_all add: days_in_month_def mdays_def eval_nat_numeral)

lemma days_in_month_bounds:
  assumes "1 \<le> m" "m \<le> 12"
  shows "28 \<le> days_in_month y m \<and> days_in_month y m \<le> 31"
  using month_cases[OF assms] by (auto simp: days_in_month_simps)

lemma days_before_month_step:
  assumes "2 \<le> m" "m \<le> 12"
  shows "days_before_month y m = days_before_month y (m - 1) + days_in_month y (m - 1)"
proof -
  have "[1..m - 1] = [1..m - 1 - 1] @ [m - 1]"
    by (rule upto_rec2) (use assms in simp)
  then show ?thesis by (simp add: days_before_month_def)
qed

lemma upto_1_11: "[1..(11::int)] = [1, 2, 3, 4, 5, 6, 7, 8, 9, 10, 11]"
  by code_simp

lemma days_before_month_12: "days_before_month y 12 + 31 = 365 + (if isleap y then 1 else 0)"
  by (simp add: days_before_month_def upto_1_11 days_in_month_simps)

lemma days_before_month_1: "days_before_month y 1 = 0"
  by (simp add: days_before_month_def)

lemma div_step:
  fixes z n :: int
  assumes "0 < n"
  shows "z div n = (z - 1) div n + (if z mod n = 0 then 1 else 0)"
proof (cases "z mod n = 0")
  case True
  have "z = n * (z div n)" using True by (metis add.right_neutral mult_div_mod_eq)
  then have "z - 1 = n * (z div n - 1) + (n - 1)"
    by (simp add: algebra_simps)
  moreover have "0 \<le> n - 1" "n - 1 < n" using assms by simp_all
  ultimately have "(z - 1) div n = z div n - 1"
    by (rule int_div_pos_eq)
  with True show ?thesis by simp
next
  case False
  have "0 \<le> z mod n" "z mod n < n" using assms by simp_all
  with False have r: "0 \<le> z mod n - 1" "z mod n - 1 < n" by simp_all
  have "z - 1 = n * (z div n) + (z mod n - 1)" by simp
  then have "(z - 1) div n = z div n"
    using r by (rule int_div_pos_eq)
  with False show ?thesis by simp
qed

lemma mod_400_100: "(z::int) mod 400 = 0 \<Longrightarrow> z mod 100 = 0"
  using mod_mod_cancel[of 100 400 z] by simp

lemma mod_100_4: "(z::int) mod 100 = 0 \<Longrightarrow> z mod 4 = 0"
  using mod_mod_cancel[of 4 100 z] by simp

lemma leap_count:
  fixes q4 q100 q400 p4 p100 p400 :: int
  assumes "q4 = p4 + (if a then 1 else 0)" "q100 = p100 + (if b then 1 else 0)"
    "q400 = p400 + (if c then 1 else 0)" "c \<Longrightarrow> b" "b \<Longrightarrow> a"
  shows "q4 - q100 + q400 = p4 - p100 + p400 + (if a \<and> (\<not> b \<or> c) then 1 else 0)"
  using assms by (cases a; cases b; cases c) simp_all

lemma days_before_year_succ:
  "days_before_year (z + 1) = days_before_year z + 365 + (if isleap z then 1 else 0)"
proof -
  have d4: "z div 4 = (z - 1) div 4 + (if z mod 4 = 0 then 1 else 0)"
    by (rule div_step) simp
  have d100: "z div 100 = (z - 1) div 100 + (if z mod 100 = 0 then 1 else 0)"
    by (rule div_step) simp
  have d400: "z div 400 = (z - 1) div 400 + (if z mod 400 = 0 then 1 else 0)"
    by (rule div_step) simp
  have k: "z div 4 - z div 100 + z div 400 =
      (z - 1) div 4 - (z - 1) div 100 + (z - 1) div 400 + (if isleap z then 1 else 0)"
    unfolding isleap_def by (rule leap_count[OF d4 d100 d400 mod_400_100 mod_100_4])
  have e: "days_before_year (z + 1) = z * 365 + (z div 4 - z div 100 + z div 400)"
    by (simp add: days_before_year_def)
  have f: "days_before_year z = (z - 1) * 365 + ((z - 1) div 4 - (z - 1) div 100 + (z - 1) div 400)"
    by (simp add: days_before_year_def)
  have g: "z * 365 = (z - 1) * 365 + 365" by (simp add: algebra_simps)
  show ?thesis unfolding e f k g by (simp only: add.assoc add.commute add.left_commute)
qed

lemma previous_date_ordinal:
  assumes "valid_date s" and "previous_date s = Inr p"
  shows "valid_date p \<and> toordinal p + 1 = toordinal s"
proof (cases "1 < day s")
  case True
  with assms show ?thesis
    by (auto simp: previous_date_def valid_date_def toordinal_def)
next
  case d1: False
  show ?thesis
  proof (cases "1 < month s")
    case True
    with d1 assms have p: "p = s\<lparr>month := month s - 1, day := days_in_month (year s) (month s - 1)\<rparr>"
      and d: "day s = 1"
      by (auto simp: previous_date_def valid_date_def)
    have m: "2 \<le> month s" "month s \<le> 12" using True assms(1) by (auto simp: valid_date_def)
    have b: "28 \<le> days_in_month (year s) (month s - 1)"
      using days_in_month_bounds[of "month s - 1" "year s"] m by simp
    show ?thesis using assms(1) m b d
      by (simp add: p valid_date_def toordinal_def days_before_month_step[OF m])
  next
    case False
    with d1 assms have p: "p = \<lparr>year = year s - 1, month = 12, day = 31\<rparr>"
      and d: "day s = 1" "month s = 1" "1 < year s"
      by (auto simp: previous_date_def valid_date_def split: if_splits)
    have "days_before_year (year s) =
        days_before_year (year s - 1) + 365 + (if isleap (year s - 1) then 1 else 0)"
      using days_before_year_succ[of "year s - 1"] by simp
    then show ?thesis using assms(1) d days_before_month_12[of "year s - 1"]
      by (simp add: p valid_date_def toordinal_def days_before_month_1 days_in_month_simps)
  qed
qed

lemma relativedelta_minus_one_day:
  assumes "valid_date s"
  shows "relativedelta_add s 0 (- 1) = previous_date s"
proof -
  have "date_replace s (Some (year s)) (Some (month s)) (Some (day s)) = Inr s"
    using assms by (cases s) (simp add: date_replace_def make_date_def)
  moreover have "date_add_days s (- 1) = previous_date s"
    by (subst date_add_days.simps) (simp add: py_then_def date_add_days.simps[of _ 0] split: sum.splits)
  ultimately show ?thesis using assms
    by (simp add: relativedelta_add_def Let_def py_then_def valid_date_def)
qed

lemma previous_date_defined:
  assumes "valid_date s" and "s \<noteq> \<lparr>year = 1, month = 1, day = 1\<rparr>"
  shows "\<exists>p. previous_date s = Inr p"
  using assms by (cases s) (auto simp: previous_date_def valid_date_def)

lemma make_date_ok:
  assumes "1 \<le> y" "y \<le> 9999" "1 \<le> m" "m \<le> 12" "1 \<le> d" "d \<le> days_in_month y m"
  shows "make_date y m d = Inr \<lparr>year = y, month = m, day = d\<rparr>"
  using assms by (simp add: make_date_def valid_date_def)

lemma make_date_last:
  assumes "1 \<le> y" "y \<le> 9999" "1 \<le> m" "m \<le> 12"
  shows "make_date y m (days_in_month y m) = Inr (last_day_of_month (y, m))"
  using assms days_in_month_bounds[OF assms(3,4), of y]
  by (simp add: make_date_ok last_day_of_month_def)

lemma month_before_range:
  assumes "2 \<le> y" "y \<le> 9999" "1 \<le> m" "m \<le> 12"
  shows "1 \<le> fst (month_before y m) \<and> fst (month_before y m) \<le> 9999
         \<and> 1 \<le> snd (month_before y m) \<and> snd (month_before y m) \<le> 12"
  using assms by (simp add: month_before_def)

lemma relativedelta_month_carry:
  "relativedelta_add dt (- 1) 0 =
     py_then (make_date (fst (month_before (year dt) (month dt)))
                (snd (month_before (year dt) (month dt)))
                (min (days_in_month (fst (month_before (year dt) (month dt)))
                        (snd (month_before (year dt) (month dt)))) (day dt)))
       (\<lambda>r. date_add_days r 0)"
  if "1 \<le> month dt" "month dt \<le> 12"
proof (cases "month dt = 1")
  case True
  then show ?thesis
    by (simp add: relativedelta_add_def Let_def month_before_def date_replace_def)
next
  case False
  with that have "2 \<le> month dt" by simp
  with False that show ?thesis
    by (simp add: relativedelta_add_def Let_def month_before_def date_replace_def)
qed

lemma relativedelta_month_back:
  assumes "2 \<le> y" "y \<le> 9999" "1 \<le> m" "m \<le> 12"
  shows "\<exists>d. relativedelta_add (last_day_of_month (y, m)) (- 1) 0 =
           Inr \<lparr>year = fst (month_before y m), month = snd (month_before y m), day = d\<rparr>"
proof -
  let ?y = "fst (month_before y m)" and ?m = "snd (month_before y m)"
  let ?d = "min (days_in_month ?y ?m) (days_in_month y m)"
  have r: "1 \<le> ?y" "?y \<le> 9999" "1 \<le> ?m" "?m \<le> 12"
    using month_before_range[OF assms] by simp_all
  have "1 \<le> ?d" "?d \<le> days_in_month ?y ?m"
    using days_in_month_bounds[OF r(3,4), of ?y] days_in_month_bounds[OF assms(3,4), of y]
    by simp_all
  then have "make_date ?y ?m ?d = Inr \<lparr>year = ?y, month = ?m, day = ?d\<rparr>"
    using r by (simp add: make_date_ok)
  moreover have "relativedelta_add (last_day_of_month (y, m)) (- 1) 0 =
      py_then (make_date ?y ?m ?d) (\<lambda>r. date_add_days r 0)"
    using relativedelta_month_carry[of "last_day_of_month (y, m)"] assms(3,4)
    by (simp add: last_day_of_month_def)
  ultimately show ?thesis
    by (simp add: py_then_def date_add_days.simps[of _ 0])
qed

section \<open>Properties of the time-window builders\<close>

text \<open>
  C4. With the current date \<open>today\<close> (of a year from 2 on, so that a year before it exists)
  and a target month \<open>m\<close> in 1..12, the daily window begins at 21:00:00.000Z on the last day
  of the month before \<open>m\<close>, which is December of the year before when \<open>m\<close> is 1, and ends
  at 20:59:59.999Z on the last day of month \<open>m\<close> of the current year. The numbers are not
  padded. The day after the begin date is the first day of month \<open>m\<close>.
\<close>

theorem daily_window_last_days:
  assumes "valid_date today" and "2 \<le> year today" and "1 \<le> m" and "m \<le> 12"
  shows "daily_window today m =
     Inr (unpadded (last_day_of_month (month_before (year today) m)) @ ''T21:00:00.000Z'',
          unpadded (last_day_of_month (year today, m)) @ ''T20:59:59.999Z'')
   \<and> next_date (last_day_of_month (month_before (year today) m)) =
       Inr \<lparr>year = year today, month = m, day = 1\<rparr>"
proof -
  let ?y = "year today"
  have y: "1 \<le> ?y" "?y \<le> 9999" using assms(1,2) by (simp_all add: valid_date_def)
  have first: "date_replace today None (Some m) (Some 1) = Inr \<lparr>year = ?y, month = m, day = 1\<rparr>"
    using y assms(3,4) days_in_month_bounds[OF assms(3,4), of ?y]
    by (simp add: date_replace_def make_date_ok)
  have n: "monthrange_last ?y m = Inr (days_in_month ?y m)"
    using assms(3,4) by (simp add: monthrange_last_def)
  have last: "date_replace today None (Some m) (Some (days_in_month ?y m)) =
      Inr (last_day_of_month (?y, m))"
    using y assms(3,4) by (simp add: date_replace_def make_date_last)
  obtain d where prev: "relativedelta_add (last_day_of_month (?y, m)) (- 1) 0 =
      Inr \<lparr>year = fst (month_before ?y m), month = snd (month_before ?y m), day = d\<rparr>"
    using relativedelta_month_back[OF assms(2) y(2) assms(3,4)] by blast
  have r: "1 \<le> fst (month_before ?y m)" "fst (month_before ?y m) \<le> 9999"
    "1 \<le> snd (month_before ?y m)" "snd (month_before ?y m) \<le> 12"
    using month_before_range[OF assms(2) y(2) assms(3,4)] by simp_all
  have k: "monthrange_last (fst (month_before ?y m)) (snd (month_before ?y m)) =
      Inr (days_in_month (fst (month_before ?y m)) (snd (month_before ?y m)))"
    using r by (simp add: monthrange_last_def)
  have pl: "date_replace \<lparr>year = fst (month_before ?y m), month = snd (month_before ?y m), day = d\<rparr>
      None None (Some (days_in_month (fst (month_before ?y m)) (snd (month_before ?y m)))) =
      Inr (last_day_of_month (month_before ?y m))"
    using r by (simp add: date_replace_def make_date_last)
  have e: "year (last_day_of_month (?y, m)) = ?y"
    by (simp add: last_day_of_month_def)
  have w: "daily_window today m =
     Inr (unpadded (last_day_of_month (month_before (year today) m)) @ ''T21:00:00.000Z'',
          unpadded (last_day_of_month (year today, m)) @ ''T20:59:59.999Z'')"
    unfolding daily_window_def
    by (simp add: py_then_def first n last prev k pl unpadded_def)
  have nx: "next_date (last_day_of_month (month_before ?y m)) =
      Inr \<lparr>year = ?y, month = m, day = 1\<rparr>"
  proof (cases "m = 1")
    case True
    then show ?thesis using y
      by (simp add: next_date_def last_day_of_month_def month_before_def)
  next
    case False
    then show ?thesis using assms(3,4)
      by (simp add: next_date_def last_day_of_month_def month_before_def)
  qed
  show ?thesis using w nx by simp
qed

text \<open>January, seen from 2026-11-03: the window begins on 2025-12-31.\<close>

theorem daily_window_last_days_witness:
  "valid_date \<lparr>year = 2026, month = 11, day = 3\<rparr>
   \<and> daily_window \<lparr>year = 2026, month = 11, day = 3\<rparr> 1 =
       Inr (''2025-12-31T21:00:00.000Z'', ''2026-1-31T20:59:59.999Z'')
   \<and> next_date \<lparr>year = 2025, month = 12, day = 31\<rparr> = Inr \<lparr>year = 2026, month = 1, day = 1\<rparr>"
proof -
  have v: "valid_date \<lparr>year = 2026, month = 11, day = 3\<rparr>" by code_simp
  have l: "last_day_of_month (month_before 2026 1) = \<lparr>year = 2025, month = 12, day = 31\<rparr>"
    by code_simp
  have e: "unpadded \<lparr>year = 2025, month = 12, day = 31\<rparr> = ''2025-12-31''"
    "unpadded (last_day_of_month (2026, 1)) = ''2026-1-31''" by code_simp+
  show ?thesis
    using daily_window_last_days[OF v, of 1] v
    by (simp add: l e)
qed

text \<open>
  C5 (as amended). For every start date \<open>s\<close> other than 0001-01-01, the first date there
  is, and every end date \<open>e\<close>, both hourly fetches build the same window: it begins at
  22:00:00+00:00 on the day before \<open>s\<close>, the date whose ordinal is one less, and ends at
  21:59:59+00:00 on \<open>e\<close>.
\<close>

theorem hourly_window_day_before:
  assumes "valid_date s" and "s \<noteq> \<lparr>year = 1, month = 1, day = 1\<rparr>"
  shows "\<exists>p. valid_date p \<and> toordinal p + 1 = toordinal s
           \<and> hourly_measurements_window s e =
               Inr (str_date p @ ''T22:00:00+00:00'', str_date e @ ''T21:59:59+00:00'')
           \<and> hourly_spot_prices_window s e =
               Inr (str_date p @ ''T22:00:00+00:00'', str_date e @ ''T21:59:59+00:00'')"
proof -
  obtain p where p: "previous_date s = Inr p"
    using previous_date_defined[OF assms] by blast
  have "valid_date p \<and> toordinal p + 1 = toordinal s"
    using previous_date_ordinal[OF assms(1) p] .
  moreover have "relativedelta_add s 0 (- 1) = Inr p"
    using relativedelta_minus_one_day[OF assms(1)] p by simp
  ultimately show ?thesis
    by (auto simp: hourly_measurements_window_def hourly_spot_prices_window_def py_then_def)
qed

text \<open>The range 2022-12-01 to 2022-12-31 of the command-line help.\<close>

theorem hourly_window_day_before_witness:
  "valid_date \<lparr>year = 2022, month = 12, day = 1\<rparr>
   \<and> (\<exists>p. valid_date p \<and> toordinal p + 1 = toordinal \<lparr>year = 2022, month = 12, day = 1\<rparr>
          \<and> hourly_measurements_window \<lparr>year = 2022, month = 12, day = 1\<rparr>
               \<lparr>year = 2022, month = 12, day = 31\<rparr> =
             Inr (str_date p @ ''T22:00:00+00:00'',
                  str_date \<lparr>year = 2022, month = 12, day = 31\<rparr> @ ''T21:59:59+00:00''))
   \<and> hourly_measurements_window \<lparr>year = 2022, month = 12, day = 1\<rparr>
        \<lparr>year = 2022, month = 12, day = 31\<rparr>
       = Inr (''2022-11-30T22:00:00+00:00'', ''2022-12-31T21:59:59+00:00'')"
proof -
  have v: "valid_date \<lparr>year = 2022, month = 12, day = 1\<rparr>"
    by code_simp
  have n: "\<lparr>year = 2022, month = 12, day = 1\<rparr> \<noteq> \<lparr>year = 1, month = 1, day = 1\<rparr>"
    by simp
  have c: "hourly_measurements_window \<lparr>year = 2022, month = 12, day = 1\<rparr>
      \<lparr>year = 2022, month = 12, day = 31\<rparr>
       = Inr (''2022-11-30T22:00:00+00:00'', ''2022-12-31T21:59:59+00:00'')"
    by code_simp
  have h: "\<exists>p. valid_date p \<and> toordinal p + 1 = toordinal \<lparr>year = 2022, month = 12, day = 1\<rparr>
          \<and> hourly_measurements_window \<lparr>year = 2022, month = 12, day = 1\<rparr>
               \<lparr>year = 2022, month = 12, day = 31\<rparr> =
             Inr (str_date p @ ''T22:00:00+00:00'',
                  str_date \<lparr>year = 2022, month = 12, day = 31\<rparr> @ ''T21:59:59+00:00'')"
    using hourly_window_day_before [OF v n, of "\<lparr>year = 2022, month = 12, day = 31\<rparr>"]
    by blast
  show ?thesis
    by (intro conjI) (rule v, rule h, rule c)
qed

text \<open>
  The claim as it stands fails at the start date 0001-01-01, which the command line
  accepts: no date lies before it, and the fetch raises \<^verbatim>\<open>OverflowError\<close> instead of
  building a window.
\<close>

theorem hourly_window_first_date_counterexample:
  "valid_date \<lparr>year = 1, month = 1, day = 1\<rparr> \<and> valid_date \<lparr>year = 1, month = 1, day = 31\<rparr>
   \<and> hourly_measurements_window \<lparr>year = 1, month = 1, day = 1\<rparr>
        \<lparr>year = 1, month = 1, day = 31\<rparr> = Inl OverflowError
   \<and> hourly_spot_prices_window \<lparr>year = 1, month = 1, day = 1\<rparr>
        \<lparr>year = 1, month = 1, day = 31\<rparr> = Inl OverflowError"
  by code_simp

text \<open>
  C9. For every start and end date the two hourly fetches build the same window, raising
  the same exception when they raise; the \<^verbatim>\<open>begin\<close> and \<^verbatim>\<open>end\<close> parameters of the two
  requests are the same.
\<close>

theorem hourly_windows_equal:
  "hourly_measurements_window start end_date = hourly_spot_prices_window start end_date
   \<and> map_sum id request_window (hourly_measurements_request start end_date site) =
       map_sum id request_window (hourly_spot_prices_request start end_date site)"
  by (simp add: hourly_measurements_window_def hourly_spot_prices_window_def
      hourly_measurements_request_def hourly_spot_prices_request_def request_window_def
      py_then_def split: sum.splits)


section \<open>Properties of the session check\<close>

text \<open>
  C6. After a login at \<open>last_login\<close>, and at a clock reading \<open>now\<close> from 0001-01-01T01:00
  on (earlier, the subtraction of the hour would leave the range of \<^verbatim>\<open>datetime\<close>), the
  session is valid exactly when \<open>last_login \<le> now \<le> last_login + 1 hour\<close>; so it is
  not valid when the login lies in the future.
\<close>

theorem session_valid_within_hour:
  assumes "timedelta_hours 1 \<le> now" and "now \<le> datetime_max"
  shows "is_session_valid ((self::HelenApiClient)\<lparr>latest_login_time := Some last_login\<rparr>) now =
     Inr (last_login \<le> now \<and> now \<le> last_login + timedelta_hours 1)"
  using assms
  by (auto simp: is_session_valid_def datetime_sub_def py_then_def Let_def timedelta_hours_def)


theorem session_valid_within_hour_witness:
  "timedelta_hours 1 \<le> 63800000000000000 \<and> 63800000000000000 \<le> datetime_max
   \<and> is_session_valid (login new_client 63799998200000000) 63800000000000000 = Inr True
   \<and> is_session_valid (login new_client 63796000000000000) 63800000000000000 = Inr False
   \<and> is_session_valid (login new_client 63800000000000001) 63800000000000000 = Inr False"
proof -
  have a: "timedelta_hours 1 \<le> 63800000000000000" by (simp add: timedelta_hours_def)
  have b: "63800000000000000 \<le> datetime_max" by (simp add: datetime_max_def)
  show ?thesis
    using session_valid_within_hour [OF a b, where self = new_client and last_login = 63799998200000000]
      session_valid_within_hour [OF a b, where self = new_client and last_login = 63796000000000000]
      session_valid_within_hour [OF a b, where self = new_client and last_login = 63800000000000001] a b
    by (simp add: login_def timedelta_hours_def)
qed


text \<open>
  C10. While the time of the latest login is unset, as it is on a new client, the validity
  check returns false at every time and raises nothing.
\<close>

theorem session_invalid_before_login:
  "is_session_valid ((self::HelenApiClient)\<lparr>latest_login_time := None\<rparr>) now = Inr False
   \<and> is_session_valid new_client now = Inr False"
  by (simp add: is_session_valid_def new_client_def)

section \<open>Properties of the base-price lookup\<close>

lemma component_getitem:
  "is_component c \<Longrightarrow> getitem_key c ''is_base_price'' = Inr (JBool (flagged c))"
  by (cases c) (auto simp: is_component_def flagged_def split: option.splits json.splits)

lemma next_filter_none:
  "list_all is_component cs \<Longrightarrow> filter flagged cs = [] \<Longrightarrow>
     next_filter_is_base_price cs = Inl StopIteration"
proof (induction cs)
  case Nil
  then show ?case by simp
next
  case (Cons c cs)
  then have "\<not> flagged c" "filter flagged cs = []" "is_component c" "list_all is_component cs"
    by (auto split: if_splits)
  then show ?case using Cons.IH by (simp add: component_getitem)
qed

lemma next_filter_first:
  "list_all is_component cs \<Longrightarrow> filter flagged cs = c # rest \<Longrightarrow>
     next_filter_is_base_price cs = Inr c"
proof (induction cs)
  case Nil
  then show ?case by simp
next
  case (Cons a cs)
  show ?case
  proof (cases "flagged a")
    case True
    with Cons.prems show ?thesis by (simp add: component_getitem)
  next
    case False
    with Cons.prems have "filter flagged cs = c # rest" "list_all is_component cs" by simp_all
    with Cons.IH False Cons.prems show ?thesis by (simp add: component_getitem)
  qed
qed

text \<open>
  C7 (as amended). Let the components of the first product of the first contract be a list of
  dictionaries that each carry a boolean \<^verbatim>\<open>is_base_price\<close>. If exactly one of them is
  flagged, the lookup returns the price of that one; if none is, it fails with
  \<^verbatim>\<open>StopIteration\<close>, the exception by which \<^verbatim>\<open>next\<close> reports that nothing was found.
\<close>

theorem base_price_lookup:
  assumes "contract_components contract_data = Inr (JArr components)"
    and "list_all is_component components"
  shows "(\<forall>c p. filter flagged components = [c] \<and> getitem_key c ''price'' = Inr p
            \<longrightarrow> get_contract_base_price contract_data = Inr p)
       \<and> (filter flagged components = []
            \<longrightarrow> get_contract_base_price contract_data = Inl StopIteration)"
  using assms
  by (auto simp: get_contract_base_price_def py_then_def next_filter_none next_filter_first)

theorem base_price_lookup_witness:
  "get_contract_base_price
     (JArr [JObj [(''products'', JArr [JObj [(''components'',
        JArr [JObj [(''is_base_price'', JBool False), (''price'', JNum 1)],
              JObj [(''is_base_price'', JBool True), (''price'', JNum 7)]])]])]]) = Inr (JNum 7)
   \<and> get_contract_base_price
     (JArr [JObj [(''products'', JArr [JObj [(''components'',
        JArr [JObj [(''is_base_price'', JBool False), (''price'', JNum 1)]])]])]])
       = Inl StopIteration"
proof -
  let ?a = "JObj [(''is_base_price'', JBool False), (''price'', JNum 1)]"
  let ?b = "JObj [(''is_base_price'', JBool True), (''price'', JNum 7)]"
  let ?d1 = "JArr [JObj [(''products'', JArr [JObj [(''components'', JArr [?a, ?b])]])]]"
  let ?d0 = "JArr [JObj [(''products'', JArr [JObj [(''components'', JArr [?a])]])]]"
  have c1: "contract_components ?d1 = Inr (JArr [?a, ?b])"
    and c0: "contract_components ?d0 = Inr (JArr [?a])"
    by (simp_all add: contract_components_def py_then_def sequence_item_def)
  have w1: "list_all is_component [?a, ?b]" and w0: "list_all is_component [?a]"
    by (simp_all add: is_component_def)
  have f1: "filter flagged [?a, ?b] = [?b]" and f0: "filter flagged [?a] = []"
    by (simp_all add: flagged_def)
  have p: "getitem_key ?b ''price'' = Inr (JNum 7)"
    by simp
  show ?thesis
    using base_price_lookup [OF c1 w1] base_price_lookup [OF c0 w0] f1 f0 p
    by simp
qed

text \<open>
  The claim as it stands names \<^verbatim>\<open>NotFoundError\<close>. No such exception exists in the
  code: with one component, not flagged, the lookup ends in the \<^verbatim>\<open>StopIteration\<close> of
  \<^verbatim>\<open>next\<close>.
\<close>

theorem base_price_none_flagged_counterexample:
  "get_contract_base_price
     (JArr [JObj [(''products'', JArr [JObj [(''components'',
        JArr [JObj [(''is_base_price'', JBool False), (''price'', JNum 1)]])]])]])
       = Inl StopIteration"
  by (simp add: get_contract_base_price_def contract_components_def py_then_def
      sequence_item_def)

section \<open>Properties of the response cache\<close>








end
